theory Spec2Isabelle
  imports Main "HOL-Library.Word"
begin

chapter \<open>The commit message provider\<close>

text \<open>
  The class \<^verbatim>\<open>AiCommitProvider\<close>: \<^verbatim>\<open>getChangesDiff\<close> and \<^verbatim>\<open>getFileDiff\<close> collect the
  diffs of the selected files, \<^verbatim>\<open>generateCommitMessage\<close> asks the completion service for
  a message and \<^verbatim>\<open>addEmojiToCommitMessage\<close> puts an emoji before it. The host (editor,
  file system, repository, completion service) is a parameter of the model; a call returns
  the list of its effects together with its result or the error it throws.
\<close>

section \<open>JavaScript strings\<close>

text \<open>
  A JavaScript string is a sequence of UTF-16 code units. Regular expressions without the
  \<^verbatim>\<open>u\<close> flag, \<^verbatim>\<open>trim\<close> and \<^verbatim>\<open>includes\<close> work on code units; a regular
  expression with the \<^verbatim>\<open>u\<close> flag reads code points, joining a surrogate pair.
\<close>

type_synonym jsstring = "16 word list"

text \<open>An ASCII literal of the source, written as an Isabelle string.\<close>

definition ascii :: "string \<Rightarrow> jsstring" where
  "ascii s = map (\<lambda>c. word_of_nat (of_char c)) s"

text \<open>\<^verbatim>\<open>s.includes(sub)\<close>: \<^verbatim>\<open>sub\<close> occurs in \<^verbatim>\<open>s\<close> as a contiguous run.\<close>

fun startsWith :: "jsstring \<Rightarrow> jsstring \<Rightarrow> bool" where
  "startsWith s [] = True"
| "startsWith [] (p # ps) = False"
| "startsWith (c # cs) (p # ps) = (c = p \<and> startsWith cs ps)"

fun str_includes :: "jsstring \<Rightarrow> jsstring \<Rightarrow> bool" where
  "str_includes [] sub = (sub = [])"
| "str_includes (c # cs) sub = (startsWith (c # cs) sub \<or> str_includes cs sub)"

text \<open>
  \<^verbatim>\<open>String.prototype.trim\<close> removes the code units of WhiteSpace and LineTerminator
  (ECMAScript, sections 12.2 and 12.3) from both ends.
\<close>

definition isWhiteSpaceOrLineTerminator :: "16 word \<Rightarrow> bool" where
  "isWhiteSpaceOrLineTerminator c \<longleftrightarrow>
     c \<in> set [0x0009, 0x000A, 0x000B, 0x000C, 0x000D, 0x0020, 0x00A0, 0x1680,
               0x2000, 0x2001, 0x2002, 0x2003, 0x2004, 0x2005, 0x2006, 0x2007,
               0x2008, 0x2009, 0x200A, 0x2028, 0x2029, 0x202F, 0x205F, 0x3000, 0xFEFF]"

definition trim :: "jsstring \<Rightarrow> jsstring" where
  "trim s = rev (dropWhile isWhiteSpaceOrLineTerminator
                  (rev (dropWhile isWhiteSpaceOrLineTerminator s)))"

section \<open>The header pattern \<^verbatim>\<open>/^(\w+)(\(.*?\))?:/\<close>\<close>

text \<open>
  The pattern has no flag: \<^verbatim>\<open>\w\<close> is \<^verbatim>\<open>[A-Za-z0-9_]\<close> and \<^verbatim>\<open>.\<close> is any code
  unit but a line terminator.
\<close>

definition isWordChar :: "16 word \<Rightarrow> bool" where
  "isWordChar c \<longleftrightarrow>
     (0x41 \<le> c \<and> c \<le> 0x5A) \<or> (0x61 \<le> c \<and> c \<le> 0x7A) \<or> (0x30 \<le> c \<and> c \<le> 0x39) \<or> c = 0x5F"

definition isLineTerminator :: "16 word \<Rightarrow> bool" where
  "isLineTerminator c \<longleftrightarrow> c = 0x000A \<or> c = 0x000D \<or> c = 0x2028 \<or> c = 0x2029"

text \<open>
  \<^verbatim>\<open>.*?\):\<close> at the current position: the lazy star first tries to stop, which needs
  \<^verbatim>\<open>):\<close> here, and otherwise consumes one code unit that is not a line terminator.
\<close>

fun lazyParenClose :: "jsstring \<Rightarrow> bool" where
  "lazyParenClose [] = False"
| "lazyParenClose (c # cs) =
     ((c = 0x29 \<and> startsWith cs [0x3A]) \<or> (\<not> isLineTerminator c \<and> lazyParenClose cs))"

text \<open>
  \<^verbatim>\<open>(\(.*?\))?:\<close> at the current position: the optional group is tried first, and
  skipped when it fails.
\<close>

definition afterType :: "jsstring \<Rightarrow> bool" where
  "afterType s \<longleftrightarrow>
     (case s of [] \<Rightarrow> False | c # cs \<Rightarrow> c = 0x28 \<and> lazyParenClose cs) \<or> startsWith s [0x3A]"

text \<open>
  \<^verbatim>\<open>commitMessage.match(...)\<close>, reduced to its first group: the greedy \<^verbatim>\<open>\w+\<close> takes
  the longest run of word characters and gives them back one at a time, down to one.
\<close>

definition typeMatch :: "jsstring \<Rightarrow> jsstring option" where
  "typeMatch s =
     (let k = length (takeWhile isWordChar s)
      in map_option (\<lambda>n. take n s) (find (\<lambda>n. afterType (drop n s)) (rev [1..<Suc k])))"

section \<open>The Unicode property Emoji\<close>

text \<open>
  \<^verbatim>\<open>\p{Emoji}\<close> is the binary property Emoji of the Unicode Character Database
  (emoji-data.txt); the table belongs to the JavaScript engine, not to the repository. The
  ranges below are those of Unicode 15.1; an engine with a later version of the table has
  a few more code points in the supplementary planes. Everything proved below reads the
  table only at code points whose value is the same in every version: the digits, the
  number sign, the asterisk and every emoji the program writes have carried the property
  since its first version, and no ASCII letter ever has.
\<close>

definition emojiRanges :: "(nat \<times> nat) list" where
  "emojiRanges =
    [(0x23, 0x23), (0x2A, 0x2A), (0x30, 0x39), (0xA9, 0xA9), (0xAE, 0xAE),
     (0x203C, 0x203C), (0x2049, 0x2049), (0x2122, 0x2122), (0x2139, 0x2139),
     (0x2194, 0x2199), (0x21A9, 0x21AA), (0x231A, 0x231B), (0x2328, 0x2328),
     (0x23CF, 0x23CF), (0x23E9, 0x23F3), (0x23F8, 0x23FA), (0x24C2, 0x24C2),
     (0x25AA, 0x25AB), (0x25B6, 0x25B6), (0x25C0, 0x25C0), (0x25FB, 0x25FE),
     (0x2600, 0x2604), (0x260E, 0x260E), (0x2611, 0x2611), (0x2614, 0x2615),
     (0x2618, 0x2618), (0x261D, 0x261D), (0x2620, 0x2620), (0x2622, 0x2623),
     (0x2626, 0x2626), (0x262A, 0x262A), (0x262E, 0x262F), (0x2638, 0x263A),
     (0x2640, 0x2640), (0x2642, 0x2642), (0x2648, 0x2653), (0x265F, 0x2660),
     (0x2663, 0x2663), (0x2665, 0x2666), (0x2668, 0x2668), (0x267B, 0x267B),
     (0x267E, 0x267F), (0x2692, 0x2697), (0x2699, 0x2699), (0x269B, 0x269C),
     (0x26A0, 0x26A1), (0x26A7, 0x26A7), (0x26AA, 0x26AB), (0x26B0, 0x26B1),
     (0x26BD, 0x26BE), (0x26C4, 0x26C5), (0x26C8, 0x26C8), (0x26CE, 0x26CF),
     (0x26D1, 0x26D1), (0x26D3, 0x26D4), (0x26E9, 0x26EA), (0x26F0, 0x26F5),
     (0x26F7, 0x26FA), (0x26FD, 0x26FD), (0x2702, 0x2702), (0x2705, 0x2705),
     (0x2708, 0x270D), (0x270F, 0x270F), (0x2712, 0x2712), (0x2714, 0x2714),
     (0x2716, 0x2716), (0x271D, 0x271D), (0x2721, 0x2721), (0x2728, 0x2728),
     (0x2733, 0x2734), (0x2744, 0x2744), (0x2747, 0x2747), (0x274C, 0x274C),
     (0x274E, 0x274E), (0x2753, 0x2755), (0x2757, 0x2757), (0x2763, 0x2764),
     (0x2795, 0x2797), (0x27A1, 0x27A1), (0x27B0, 0x27B0), (0x27BF, 0x27BF),
     (0x2934, 0x2935), (0x2B05, 0x2B07), (0x2B1B, 0x2B1C), (0x2B50, 0x2B50),
     (0x2B55, 0x2B55), (0x3030, 0x3030), (0x303D, 0x303D), (0x3297, 0x3297),
     (0x3299, 0x3299),
     (0x1F004, 0x1F004), (0x1F0CF, 0x1F0CF), (0x1F170, 0x1F171), (0x1F17E, 0x1F17F),
     (0x1F18E, 0x1F18E), (0x1F191, 0x1F19A), (0x1F1E6, 0x1F1FF), (0x1F201, 0x1F202),
     (0x1F21A, 0x1F21A), (0x1F22F, 0x1F22F), (0x1F232, 0x1F23A), (0x1F250, 0x1F251),
     (0x1F300, 0x1F321), (0x1F324, 0x1F393), (0x1F396, 0x1F397), (0x1F399, 0x1F39B),
     (0x1F39E, 0x1F3F0), (0x1F3F3, 0x1F3F5), (0x1F3F7, 0x1F4FD), (0x1F4FF, 0x1F53D),
     (0x1F549, 0x1F54E), (0x1F550, 0x1F567), (0x1F56F, 0x1F570), (0x1F573, 0x1F57A),
     (0x1F587, 0x1F587), (0x1F58A, 0x1F58D), (0x1F590, 0x1F590), (0x1F595, 0x1F596),
     (0x1F5A4, 0x1F5A5), (0x1F5A8, 0x1F5A8), (0x1F5B1, 0x1F5B2), (0x1F5BC, 0x1F5BC),
     (0x1F5C2, 0x1F5C4), (0x1F5D1, 0x1F5D3), (0x1F5DC, 0x1F5DE), (0x1F5E1, 0x1F5E1),
     (0x1F5E3, 0x1F5E3), (0x1F5E8, 0x1F5E8), (0x1F5EF, 0x1F5EF), (0x1F5F3, 0x1F5F3),
     (0x1F5FA, 0x1F64F), (0x1F680, 0x1F6C5), (0x1F6CB, 0x1F6D2), (0x1F6D5, 0x1F6D7),
     (0x1F6DC, 0x1F6E5), (0x1F6E9, 0x1F6E9), (0x1F6EB, 0x1F6EC), (0x1F6F0, 0x1F6F0),
     (0x1F6F3, 0x1F6FC), (0x1F7E0, 0x1F7EB), (0x1F7F0, 0x1F7F0), (0x1F90C, 0x1F93A),
     (0x1F93C, 0x1F945), (0x1F947, 0x1F9FF), (0x1FA70, 0x1FA7C), (0x1FA80, 0x1FA88),
     (0x1FA90, 0x1FABD), (0x1FABF, 0x1FAC5), (0x1FACE, 0x1FADB), (0x1FAE0, 0x1FAE8),
     (0x1FAF0, 0x1FAF8)]"

definition Emoji :: "nat \<Rightarrow> bool" where
  "Emoji cp \<longleftrightarrow> list_ex (\<lambda>(lo, hi). lo \<le> cp \<and> cp \<le> hi) emojiRanges"

text \<open>
  The code point a \<^verbatim>\<open>u\<close>-flag pattern reads at the start of a string: a lead surrogate
  followed by a trail surrogate is one supplementary code point, any other code unit is
  its own code point.
\<close>

definition isLeadSurrogate :: "16 word \<Rightarrow> bool" where
  "isLeadSurrogate c \<longleftrightarrow> 0xD800 \<le> c \<and> c \<le> 0xDBFF"

definition isTrailSurrogate :: "16 word \<Rightarrow> bool" where
  "isTrailSurrogate c \<longleftrightarrow> 0xDC00 \<le> c \<and> c \<le> 0xDFFF"

fun firstCodePoint :: "jsstring \<Rightarrow> nat option" where
  "firstCodePoint [] = None"
| "firstCodePoint [c] = Some (unat c)"
| "firstCodePoint (c # d # cs) =
     (if isLeadSurrogate c \<and> isTrailSurrogate d
      then Some (0x10000 + (unat c - 0xD800) * 0x400 + (unat d - 0xDC00))
      else Some (unat c))"

text \<open>\<^verbatim>\<open>/^\p{Emoji}/u.test(s)\<close>\<close>

definition startsWithEmoji :: "jsstring \<Rightarrow> bool" where
  "startsWithEmoji s = (case firstCodePoint s of None \<Rightarrow> False | Some cp \<Rightarrow> Emoji cp)"

section \<open>addEmojiToCommitMessage\<close>

text \<open>
  \<^verbatim>\<open>emojiMap\<close> is an object literal, so \<^verbatim>\<open>emojiMap[type]\<close> reads an own property when
  there is one and otherwise follows the prototype chain to \<^verbatim>\<open>Object.prototype\<close>, whose
  members are built-in functions and the \<^verbatim>\<open>__proto__\<close> accessor.
\<close>

datatype js_value = JsString jsstring | NativeFunction jsstring | ObjectPrototype

definition emojiMap :: "(jsstring \<times> jsstring) list" where
  "emojiMap =
    [(ascii ''feat'', [0x2728]),
     (ascii ''fix'', [0xD83D, 0xDC1B]),
     (ascii ''docs'', [0xD83D, 0xDCDA]),
     (ascii ''style'', [0xD83D, 0xDC84]),
     (ascii ''refactor'', [0x267B, 0xFE0F]),
     (ascii ''perf'', [0x26A1]),
     (ascii ''test'', [0x2705]),
     (ascii ''chore'', [0xD83D, 0xDD27]),
     (ascii ''build'', [0xD83C, 0xDFD7, 0xFE0F]),
     (ascii ''ci'', [0xD83D, 0xDD04])]"

definition objectPrototypeFunctions :: "jsstring list" where
  "objectPrototypeFunctions =
    [ascii ''__defineGetter__'', ascii ''__defineSetter__'', ascii ''hasOwnProperty'',
     ascii ''__lookupGetter__'', ascii ''__lookupSetter__'', ascii ''isPrototypeOf'',
     ascii ''propertyIsEnumerable'', ascii ''toString'', ascii ''valueOf'',
     ascii ''toLocaleString'']"

definition objectPrototypeGet :: "jsstring \<Rightarrow> js_value option" where
  "objectPrototypeGet key =
     (if key = ascii ''constructor'' then Some (NativeFunction (ascii ''Object''))
      else if key = ascii ''__proto__'' then Some ObjectPrototype
      else if key \<in> set objectPrototypeFunctions then Some (NativeFunction key)
      else None)"

definition emojiMapGet :: "jsstring \<Rightarrow> js_value option" where
  "emojiMapGet key =
     (case map_of emojiMap key of
        Some e \<Rightarrow> Some (JsString e)
      | None \<Rightarrow> objectPrototypeGet key)"

fun truthy :: "js_value \<Rightarrow> bool" where
  "truthy (JsString s) = (s \<noteq> [])"
| "truthy (NativeFunction n) = True"
| "truthy ObjectPrototype = True"

text \<open>
  What a template literal writes for a value: a string as it is, a built-in function as
  the engine prints it, the prototype object through \<^verbatim>\<open>Object.prototype.toString\<close>.
\<close>

fun templateString :: "js_value \<Rightarrow> jsstring" where
  "templateString (JsString s) = s"
| "templateString (NativeFunction n) = ascii ''function '' @ n @ ascii ''() { [native code] }''"
| "templateString ObjectPrototype = ascii ''[object Object]''"

definition addEmojiToCommitMessage :: "jsstring \<Rightarrow> jsstring \<Rightarrow> jsstring" where
  "addEmojiToCommitMessage commitMessage type =
     (if startsWithEmoji commitMessage then commitMessage
      else
        let emoji = (case emojiMapGet type of
                       None \<Rightarrow> JsString [0x2728]
                     | Some v \<Rightarrow> if truthy v then v else JsString [0x2728])
        in templateString emoji @ ascii '' '' @ commitMessage)"

section \<open>The host: thrown values, effects, the repository and the workspace\<close>

text \<open>
  A thrown value is anything. The code asks whether it is an object, whether it is an
  instance of \<^verbatim>\<open>Error\<close> (which always has a \<^verbatim>\<open>message\<close>), and for its properties
  \<^verbatim>\<open>gitErrorCode\<close> and \<^verbatim>\<open>message\<close>. Both properties are strings when present, as
  the interface \<^verbatim>\<open>GitError\<close> of the source declares them.
\<close>

datatype thrown =
    NonObject
  | PlainObject "jsstring option" "jsstring option"
  | ErrorInstance "jsstring option" jsstring

fun gitErrorCode :: "thrown \<Rightarrow> jsstring option" where
  "gitErrorCode NonObject = None"
| "gitErrorCode (PlainObject code msg) = code"
| "gitErrorCode (ErrorInstance code msg) = code"

fun errorMessage :: "thrown \<Rightarrow> jsstring option" where
  "errorMessage NonObject = None"
| "errorMessage (PlainObject code msg) = msg"
| "errorMessage (ErrorInstance code msg) = Some msg"

fun isGitError :: "thrown \<Rightarrow> bool" where
  "isGitError NonObject = False"
| "isGitError (PlainObject code msg) = (code \<noteq> None \<or> msg \<noteq> None)"
| "isGitError (ErrorInstance code msg) = True"

text \<open>The messages the program shows, by what they say.\<close>

datatype ui_message =
    GitNotInitialized
  | NoRepositoryFound
  | FileDiffFailed jsstring
  | ApiKeyInvalid
  | NetworkFailure
  | RequestTimedOut
  | GenerationFailed jsstring
  | GenerationFailedUnknown

text \<open>
  What a call does besides returning: notifications to the user, lines on the console,
  requests to the file system and to the repository. Within one call of
  \<^verbatim>\<open>getFileDiff\<close> the effects happen in the order listed. The per-file callbacks of
  \<^verbatim>\<open>getChangesDiff\<close> are all started before any of them is awaited, so their effects
  interleave, in an order that the host's input and output decide: the host merges the
  traces of the callbacks (the field \<^verbatim>\<open>interleaving\<close> of the workspace).
\<close>

datatype event =
    ShowErrorMessage ui_message
  | ShowWarningMessage ui_message
  | ConsoleError
  | ConsoleWarn
  | FsStat jsstring
  | FsReadFile jsstring
  | RepoShow jsstring
  | RepoDiffWithHEAD jsstring

datatype provider_error =
    GitExtensionNotInitialized
  | NoGitRepositoryFound
  | OpenAINotInitialized

record repository =
  repo_show :: "jsstring \<Rightarrow> thrown + jsstring"
  repo_diffWithHEAD :: "jsstring \<Rightarrow> thrown + jsstring"

record workspace =
  Uri_file :: "jsstring \<Rightarrow> thrown + jsstring"
  asRelativePath :: "jsstring \<Rightarrow> thrown + jsstring"
  fs_stat :: "jsstring \<Rightarrow> thrown + unit"
  fs_readFile :: "jsstring \<Rightarrow> thrown + 8 word list"
  TextDecoder_decode :: "8 word list \<Rightarrow> jsstring"
  interleaving :: "event list list \<Rightarrow> event list"

text \<open>
  The completion service answers a request with a list of choices or throws. The request
  is a fixed function of \<^verbatim>\<open>diffContent\<close>, so the client is a function of it. A choice
  may lack its message and a message its content, which the optional chaining of the source
  allows for; \<^verbatim>\<open>choices\<close> itself is an array, as the client library types it.
\<close>

datatype chat_message = ChatMessage (message_content: "jsstring option")

datatype choice = Choice (choice_message: "chat_message option")

text \<open>
  The fields of the provider set by its constructor: the API of the version-control
  extension, of which the code reads the repositories only, and the completion client;
  each is absent when its initialisation found nothing.
\<close>

record provider =
  gitExtension :: "repository list option"
  openai :: "(jsstring \<Rightarrow> thrown + choice list) option"

section \<open>getFileDiff\<close>

text \<open>
  The condition under which a failure of \<^verbatim>\<open>repo.show(uri, 'HEAD')\<close> makes the file a new
  file.
\<close>

definition isNotTracked :: "thrown \<Rightarrow> bool" where
  "isNotTracked error \<longleftrightarrow>
     isGitError error \<and>
     (gitErrorCode error = Some (ascii ''NotAGitRepository'') \<or>
      gitErrorCode error = Some (ascii ''UnknownPath'') \<or>
      (case errorMessage error of
         None \<Rightarrow> False
       | Some m \<Rightarrow> str_includes m (ascii ''did not match any file(s) known to git'')))"

definition newFileMarker :: jsstring where
  "newFileMarker = ascii ''+++ New file\<newline>''"

text \<open>The last step of \<^verbatim>\<open>getFileDiff\<close>, after the effects \<^verbatim>\<open>evs\<close>.\<close>

definition diffAgainstHEAD :: "repository \<Rightarrow> jsstring \<Rightarrow> event list \<Rightarrow> event list \<times> jsstring option" where
  "diffAgainstHEAD repo uri evs =
     (case repo_diffWithHEAD repo uri of
        Inr diff \<Rightarrow> (evs @ [RepoDiffWithHEAD uri], Some diff)
      | Inl error \<Rightarrow> (evs @ [RepoDiffWithHEAD uri, ConsoleError], None))"

text \<open>\<^verbatim>\<open>None\<close> is the \<^verbatim>\<open>undefined\<close> of the source.\<close>

definition getFileDiff :: "workspace \<Rightarrow> repository \<Rightarrow> jsstring \<Rightarrow> event list \<times> jsstring option" where
  "getFileDiff ws repo uri =
     (case fs_stat ws uri of
        Inl error \<Rightarrow> ([FsStat uri, ConsoleWarn], None)
      | Inr u \<Rightarrow>
          (case repo_show repo uri of
             Inr shown \<Rightarrow> diffAgainstHEAD repo uri [FsStat uri, RepoShow uri]
           | Inl error \<Rightarrow>
               if isNotTracked error then
                 (case fs_readFile ws uri of
                    Inr content \<Rightarrow>
                      ([FsStat uri, RepoShow uri, FsReadFile uri],
                       Some (newFileMarker @ TextDecoder_decode ws content))
                  | Inl readError \<Rightarrow>
                      ([FsStat uri, RepoShow uri, FsReadFile uri, ConsoleError], None))
               else diffAgainstHEAD repo uri [FsStat uri, RepoShow uri]))"

section \<open>getChangesDiff\<close>

text \<open>
  The callback mapped over \<^verbatim>\<open>filePaths\<close>: its \<^verbatim>\<open>try\<close> covers \<^verbatim>\<open>Uri.file\<close>,
  \<^verbatim>\<open>asRelativePath\<close> and \<^verbatim>\<open>getFileDiff\<close>; an empty diff is falsy and gives
  \<^verbatim>\<open>null\<close>, as \<^verbatim>\<open>undefined\<close> does.
\<close>

definition diffPromise :: "workspace \<Rightarrow> repository \<Rightarrow> jsstring \<Rightarrow> event list \<times> (jsstring \<times> jsstring) option" where
  "diffPromise ws repo filePath =
     (case Uri_file ws filePath of
        Inl error \<Rightarrow> ([ConsoleError, ShowWarningMessage (FileDiffFailed filePath)], None)
      | Inr uri \<Rightarrow>
          (case asRelativePath ws filePath of
             Inl error \<Rightarrow> ([ConsoleError, ShowWarningMessage (FileDiffFailed filePath)], None)
           | Inr fileRelativePath \<Rightarrow>
               (case getFileDiff ws repo uri of
                  (evs, None) \<Rightarrow> (evs, None)
                | (evs, Some diff) \<Rightarrow>
                    if diff \<noteq> [] then (evs, Some (fileRelativePath, diff)) else (evs, None))))"

text \<open>One iteration of the loop over the results.\<close>

fun appendResult :: "jsstring \<Rightarrow> (jsstring \<times> jsstring) option \<Rightarrow> jsstring" where
  "appendResult allDiffs None = allDiffs"
| "appendResult allDiffs (Some (path, diff)) =
     allDiffs @ ascii ''\<newline>--- '' @ path @ ascii '' ---\<newline>'' @ diff @ ascii ''\<newline>''"

definition getChangesDiff :: "provider \<Rightarrow> workspace \<Rightarrow> jsstring list \<Rightarrow> event list \<times> (provider_error + jsstring)" where
  "getChangesDiff this ws filePaths =
     (case gitExtension this of
        None \<Rightarrow> ([ShowErrorMessage GitNotInitialized], Inl GitExtensionNotInitialized)
      | Some repositories \<Rightarrow>
          (case repositories of
             [] \<Rightarrow> ([ShowErrorMessage NoRepositoryFound], Inl NoGitRepositoryFound)
           | repo # others \<Rightarrow>
               if filePaths = [] then ([], Inr [])
               else
                 let results = map (diffPromise ws repo) filePaths
                 in (interleaving ws (map fst results),
                     Inr (foldl appendResult [] (map snd results)))))"

section \<open>generateCommitMessage\<close>

definition defaultCommitMessage :: jsstring where
  "defaultCommitMessage = [0x2728] @ ascii '' feat: implement requested changes''"

text \<open>\<^verbatim>\<open>response.choices[0]?.message?.content?.trim()\<close>\<close>

definition firstContent :: "choice list \<Rightarrow> jsstring option" where
  "firstContent choices =
     (case choices of
        [] \<Rightarrow> None
      | c # cs \<Rightarrow> (case choice_message c of None \<Rightarrow> None | Some m \<Rightarrow> map_option trim (message_content m)))"

text \<open>The message shown by the \<^verbatim>\<open>catch\<close> block.\<close>

definition failureMessage :: "thrown \<Rightarrow> ui_message" where
  "failureMessage error =
     (case error of
        ErrorInstance code msg \<Rightarrow>
          if str_includes msg (ascii ''API key'') then ApiKeyInvalid
          else if str_includes msg (ascii ''network'') then NetworkFailure
          else if str_includes msg (ascii ''timeout'') then RequestTimedOut
          else GenerationFailed msg
      | PlainObject code msg \<Rightarrow> GenerationFailedUnknown
      | NonObject \<Rightarrow> GenerationFailedUnknown)"

definition generateCommitMessage :: "provider \<Rightarrow> jsstring \<Rightarrow> event list \<times> (provider_error + jsstring)" where
  "generateCommitMessage this diffContent =
     (case openai this of
        None \<Rightarrow> ([], Inl OpenAINotInitialized)
      | Some create \<Rightarrow>
          (case create diffContent of
             Inl error \<Rightarrow>
               ([ConsoleError, ShowErrorMessage (failureMessage error)], Inr defaultCommitMessage)
           | Inr choices \<Rightarrow>
               let commitMessage =
                     (case firstContent choices of
                        None \<Rightarrow> defaultCommitMessage
                      | Some text \<Rightarrow> if text = [] then defaultCommitMessage else text);
                   type = (case typeMatch commitMessage of Some t \<Rightarrow> t | None \<Rightarrow> ascii ''feat'')
               in ([], Inr (addEmojiToCommitMessage commitMessage type))))"

section \<open>Notions of the specification\<close>

text \<open>The section a file contributes to the composite, as the loop writes it.\<close>

definition fileSection :: "jsstring \<times> jsstring \<Rightarrow> jsstring" where
  "fileSection r =
     ascii ''\<newline>--- '' @ fst r @ ascii '' ---\<newline>'' @ snd r @ ascii ''\<newline>''"

text \<open>
  The section as the specification writes it:
  \<^verbatim>\<open>"--- <relative-path> ---\n<diffText>\n"\<close>.
\<close>

definition specSection :: "jsstring \<times> jsstring \<Rightarrow> jsstring" where
  "specSection r = ascii ''--- '' @ fst r @ ascii '' ---\<newline>'' @ snd r @ ascii ''\<newline>''"

text \<open>
  The files that produced a diff, in input order, each with its relative path and its
  diff text.
\<close>

definition producedDiffs :: "workspace \<Rightarrow> repository \<Rightarrow> jsstring list \<Rightarrow> (jsstring \<times> jsstring) list" where
  "producedDiffs ws repo filePaths = List.map_filter (\<lambda>p. snd (diffPromise ws repo p)) filePaths"

text \<open>
  A file fails inside \<^verbatim>\<open>getFileDiff\<close>: \<^verbatim>\<open>stat\<close> throws, or the file is not tracked and
  reading it throws, or it is not a new file and \<^verbatim>\<open>diffWithHEAD\<close> throws.
\<close>

definition fileFails :: "workspace \<Rightarrow> repository \<Rightarrow> jsstring \<Rightarrow> bool" where
  "fileFails ws repo uri \<longleftrightarrow>
     isl (fs_stat ws uri) \<or>
     (case repo_show repo uri of
        Inl error \<Rightarrow>
          if isNotTracked error then isl (fs_readFile ws uri) else isl (repo_diffWithHEAD repo uri)
      | Inr shown \<Rightarrow> isl (repo_diffWithHEAD repo uri))"

text \<open>A notification the user sees, as opposed to a console line or a request.\<close>

fun isUserNotification :: "event \<Rightarrow> bool" where
  "isUserNotification (ShowErrorMessage m) = True"
| "isUserNotification (ShowWarningMessage m) = True"
| "isUserNotification e = False"

fun isConsoleLine :: "event \<Rightarrow> bool" where
  "isConsoleLine ConsoleError = True"
| "isConsoleLine ConsoleWarn = True"
| "isConsoleLine e = False"

text \<open>The failure categories of the specification, and the category each message is for.\<close>

datatype category = Credential | Network | Timeout | Other

fun messageCategory :: "ui_message \<Rightarrow> category option" where
  "messageCategory ApiKeyInvalid = Some Credential"
| "messageCategory NetworkFailure = Some Network"
| "messageCategory RequestTimedOut = Some Timeout"
| "messageCategory (GenerationFailed msg) = Some Other"
| "messageCategory GenerationFailedUnknown = Some Other"
| "messageCategory m = None"

text \<open>
  The category of a thrown value by its error text, in the order credential, network,
  timeout; a value that is no \<^verbatim>\<open>Error\<close> has no text to inspect.
\<close>

definition errorCategory :: "thrown \<Rightarrow> category" where
  "errorCategory error =
     (case error of
        ErrorInstance code text \<Rightarrow>
          if str_includes text (ascii ''API key'') then Credential
          else if str_includes text (ascii ''network'') then Network
          else if str_includes text (ascii ''timeout'') then Timeout
          else Other
      | PlainObject code msg \<Rightarrow> Other
      | NonObject \<Rightarrow> Other)"

section \<open>Concrete hosts\<close>

text \<open>
  A workspace under \<^verbatim>\<open>/w/\<close> with four files: \<^verbatim>\<open>a.ts\<close> and \<^verbatim>\<open>b.ts\<close> are tracked,
  \<^verbatim>\<open>new.ts\<close> is not, \<^verbatim>\<open>gone.ts\<close> does not exist; the repository fails to diff
  \<^verbatim>\<open>b.ts\<close>. File contents are ASCII, which UTF-8 decodes byte by byte. Every request is
  answered in the order it was made, so the callbacks take turns: the first effect of each
  file, then the second of each, and so on.
\<close>

definition demoWorkspace :: workspace where
  "demoWorkspace =
     \<lparr>Uri_file = (\<lambda>p. Inr p),
      asRelativePath = (\<lambda>p. Inr (drop 3 p)),
      fs_stat = (\<lambda>u. if u = ascii ''/w/gone.ts'' then Inl (ErrorInstance None (ascii ''ENOENT'')) else Inr ()),
      fs_readFile = (\<lambda>u. Inr [0x6C, 0x65, 0x74, 0x20, 0x78, 0x0A]),
      TextDecoder_decode = map ucast,
      interleaving = (\<lambda>traces. concat (transpose traces))\<rparr>"

definition demoRepository :: repository where
  "demoRepository =
     \<lparr>repo_show = (\<lambda>u. if u = ascii ''/w/new.ts''
                        then Inl (ErrorInstance (Some (ascii ''UnknownPath'')) (ascii ''unknown path''))
                        else Inr (ascii ''let y'')),
      repo_diffWithHEAD = (\<lambda>u. if u = ascii ''/w/b.ts''
                                then Inl (ErrorInstance None (ascii ''git failed''))
                                else Inr (ascii ''+x''))\<rparr>"

text \<open>A provider with the repository and no completion client.\<close>

definition demoProvider :: provider where
  "demoProvider = \<lparr>gitExtension = Some [demoRepository], openai = None\<rparr>"

text \<open>A provider without the version-control extension, and one without a repository.\<close>

definition noGitProvider :: provider where
  "noGitProvider = \<lparr>gitExtension = None, openai = None\<rparr>"

definition noRepoProvider :: provider where
  "noRepoProvider = \<lparr>gitExtension = Some [], openai = None\<rparr>"

text \<open>A provider whose completion client answers every request with one choice.\<close>

definition replyingProvider :: "jsstring \<Rightarrow> provider" where
  "replyingProvider text =
     \<lparr>gitExtension = None,
      openai = Some (\<lambda>diffContent. Inr [Choice (Some (ChatMessage (Some text)))])\<rparr>"

text \<open>A provider whose completion client throws.\<close>

definition failingProvider :: "thrown \<Rightarrow> provider" where
  "failingProvider error = \<lparr>gitExtension = None, openai = Some (\<lambda>diffContent. Inl error)\<rparr>"

section \<open>The header pattern finds the longest run of word characters\<close>

text \<open>
  A word character is neither an opening parenthesis nor a colon, so giving back word
  characters never helps: the pattern matches with the whole run as its type or not at all.
\<close>

lemma isWordChar_not_delim: "isWordChar c \<Longrightarrow> c \<noteq> 0x28 \<and> c \<noteq> 0x3A"
  by (auto simp: isWordChar_def)

lemma afterType_wordChar: "isWordChar c \<Longrightarrow> \<not> afterType (c # cs)"
  using isWordChar_not_delim [of c] by (simp add: afterType_def)

lemma afterType_inside_run:
  assumes "n < length (takeWhile isWordChar s)"
  shows "\<not> afterType (drop n s)"
proof -
  have len: "n < length s"
    using assms length_takeWhile_le [of isWordChar s] by simp
  have "isWordChar (s ! n)"
    using assms by (metis nth_mem set_takeWhileD takeWhile_nth)
  moreover have "drop n s = s ! n # drop (Suc n) s"
    using len by (simp add: Cons_nth_drop_Suc)
  ultimately show ?thesis by (simp add: afterType_wordChar)
qed

lemma find_downto_None:
  assumes "\<And>n. n < k \<Longrightarrow> \<not> P n"
  shows "find P (rev [1..<k]) = None"
proof -
  have "\<forall>n \<in> set (rev [1..<k]). \<not> P n"
    using assms by simp
  then show ?thesis
    unfolding find_None_iff by blast
qed

lemma typeMatch_eq:
  "typeMatch s =
     (if takeWhile isWordChar s \<noteq> [] \<and> afterType (dropWhile isWordChar s)
      then Some (takeWhile isWordChar s) else None)"
proof -
  define k where "k = length (takeWhile isWordChar s)"
  have none: "find (\<lambda>n. afterType (drop n s)) (rev [1..<k]) = None"
    by (rule find_downto_None) (simp only: k_def afterType_inside_run not_False_eq_True)
  have tk: "take k s = takeWhile isWordChar s" and dk: "drop k s = dropWhile isWordChar s"
    unfolding k_def by (rule takeWhile_eq_take [symmetric], rule dropWhile_eq_drop [symmetric])
  show ?thesis
  proof (cases "k = 0")
    case True
    then show ?thesis by (simp add: typeMatch_def k_def [symmetric]) (simp add: k_def)
  next
    case False
    then have "rev [1..<Suc k] = k # rev [1..<k]" by simp
    then show ?thesis
      using False none tk dk
      by (simp add: typeMatch_def k_def [symmetric] Let_def del: upt_Suc) (auto simp: k_def)
  qed
qed

lemma foldl_appendResult:
  "foldl appendResult acc rs = acc @ concat (map fileSection (List.map_filter (\<lambda>r. r) rs))"
proof (induction rs arbitrary: acc)
  case Nil
  then show ?case by (simp add: List.map_filter_simps)
next
  case (Cons r rs)
  then show ?case
    by (cases r) (auto simp: List.map_filter_simps fileSection_def)
qed

lemma map_filter_of_map: "List.map_filter g (map f xs) = List.map_filter (\<lambda>x. g (f x)) xs"
  by (induction xs) (simp_all add: List.map_filter_simps split: option.splits)

section \<open>getChangesDiff: the composite and the effects\<close>

lemma getChangesDiff_composite:
  assumes "gitExtension this = Some (repo # others)"
  shows "snd (getChangesDiff this ws filePaths) =
           Inr (concat (map fileSection (producedDiffs ws repo filePaths)))"
  using assms
  by (simp add: getChangesDiff_def producedDiffs_def foldl_appendResult map_filter_of_map
        List.map_filter_simps Let_def)

lemma getChangesDiff_events:
  assumes "gitExtension this = Some (repo # others)" and "filePaths \<noteq> []"
  shows "fst (getChangesDiff this ws filePaths) =
           interleaving ws (map (\<lambda>p. fst (diffPromise ws repo p)) filePaths)"
  using assms by (simp add: getChangesDiff_def comp_def)

lemma getFileDiff_quiet: "\<not> list_ex isUserNotification (fst (getFileDiff ws repo uri))"
  by (simp add: getFileDiff_def diffAgainstHEAD_def split: sum.splits)

section \<open>Claims about getChangesDiff with no repository or no paths\<close>

text \<open>
  C8. \<^verbatim>\<open>getChangesDiff\<close> throws exactly when the version-control extension was not found
  or has no repository. In either case it has shown the matching error message and nothing
  else, and there is no partial result: the outcome is the error alone.
\<close>

theorem getChangesDiff_aborts_iff:
  "(isl (snd (getChangesDiff this ws filePaths)) \<longleftrightarrow>
      gitExtension this = None \<or> gitExtension this = Some []) \<and>
   (gitExtension this = None \<longrightarrow>
      getChangesDiff this ws filePaths =
        ([ShowErrorMessage GitNotInitialized], Inl GitExtensionNotInitialized)) \<and>
   (gitExtension this = Some [] \<longrightarrow>
      getChangesDiff this ws filePaths =
        ([ShowErrorMessage NoRepositoryFound], Inl NoGitRepositoryFound))"
  by (simp add: getChangesDiff_def split: option.splits list.splits)

theorem getChangesDiff_aborts_iff_witness:
  "gitExtension noGitProvider = None \<and>
   getChangesDiff noGitProvider demoWorkspace [ascii ''/w/a.ts''] =
     ([ShowErrorMessage GitNotInitialized], Inl GitExtensionNotInitialized) \<and>
   gitExtension noRepoProvider = Some [] \<and>
   getChangesDiff noRepoProvider demoWorkspace [ascii ''/w/a.ts''] =
     ([ShowErrorMessage NoRepositoryFound], Inl NoGitRepositoryFound) \<and>
   \<not> isl (snd (getChangesDiff demoProvider demoWorkspace [ascii ''/w/a.ts'']))"
  using getChangesDiff_aborts_iff [of noGitProvider demoWorkspace "[ascii ''/w/a.ts'']"]
    getChangesDiff_aborts_iff [of noRepoProvider demoWorkspace "[ascii ''/w/a.ts'']"]
    getChangesDiff_aborts_iff [of demoProvider demoWorkspace "[ascii ''/w/a.ts'']"]
  by (simp add: noGitProvider_def noRepoProvider_def demoProvider_def)

text \<open>
  C7, as stated, fails: the two guards come before the test for an empty list, so with
  no extension or no repository the call with no paths shows an error message and throws.
\<close>

theorem getChangesDiff_empty_counterexample:
  "getChangesDiff noGitProvider demoWorkspace [] =
     ([ShowErrorMessage GitNotInitialized], Inl GitExtensionNotInitialized) \<and>
   getChangesDiff noRepoProvider demoWorkspace [] =
     ([ShowErrorMessage NoRepositoryFound], Inl NoGitRepositoryFound)"
  by (simp add: getChangesDiff_def noGitProvider_def noRepoProvider_def)

text \<open>
  C7, amended. When the extension was found and has a repository, \<^verbatim>\<open>getChangesDiff\<close> with
  an empty list of paths returns the empty string, with no effect at all: no error, no
  message, no request to the file system or the repository.
\<close>

theorem getChangesDiff_empty:
  "gitExtension this = Some (repo # others) \<Longrightarrow> getChangesDiff this ws [] = ([], Inr [])"
  by (simp add: getChangesDiff_def)

theorem getChangesDiff_empty_witness:
  "gitExtension demoProvider = Some (demoRepository # []) \<and>
   getChangesDiff demoProvider demoWorkspace [] = ([], Inr [])"
  using getChangesDiff_empty [of demoProvider demoRepository "[]" demoWorkspace]
  by (simp add: demoProvider_def)

section \<open>Facts about the emoji test\<close>

lemma Emoji_in_range: "(lo, hi) \<in> set emojiRanges \<Longrightarrow> lo \<le> cp \<Longrightarrow> cp \<le> hi \<Longrightarrow> Emoji cp"
  by (auto simp: Emoji_def list_ex_iff)

lemma firstCodePoint_basic:
  "\<not> isLeadSurrogate c \<Longrightarrow> firstCodePoint (c # rest) = Some (unat c)"
  by (cases rest) simp_all

lemma startsWithEmoji_digit_hash_star:
  assumes "(0x30 \<le> c \<and> c \<le> 0x39) \<or> c = 0x23 \<or> c = 0x2A"
  shows "startsWithEmoji (c # rest)"
proof -
  have small: "c \<le> 0x39"
    using assms by auto
  then have "\<not> isLeadSurrogate c"
    by (simp add: isLeadSurrogate_def word_le_nat_alt)
  then have cp: "firstCodePoint (c # rest) = Some (unat c)"
    by (rule firstCodePoint_basic)
  have "Emoji (unat c)"
    using assms
  proof (elim disjE conjE)
    assume "0x30 \<le> c" "c \<le> 0x39"
    then have "0x30 \<le> unat c" "unat c \<le> 0x39"
      by (simp_all add: word_le_nat_alt)
    then show ?thesis
      by (rule Emoji_in_range [rotated]) (simp add: emojiRanges_def)
  next
    assume "c = 0x23"
    then show ?thesis by (simp add: Emoji_def emojiRanges_def)
  next
    assume "c = 0x2A"
    then show ?thesis by (simp add: Emoji_def emojiRanges_def)
  qed
  with cp show ?thesis by (simp add: startsWithEmoji_def)
qed

lemma startsWithEmoji_default: "startsWithEmoji defaultCommitMessage"
  by (simp add: startsWithEmoji_def defaultCommitMessage_def ascii_def isLeadSurrogate_def
        Emoji_def emojiRanges_def)

lemma addEmoji_unchanged: "startsWithEmoji m \<Longrightarrow> addEmojiToCommitMessage m t = m"
  by (simp add: addEmojiToCommitMessage_def)

lemma addEmoji_nonempty: "m \<noteq> [] \<Longrightarrow> addEmojiToCommitMessage m t \<noteq> []"
  by (simp add: addEmojiToCommitMessage_def Let_def)

lemma defaultCommitMessage_nonempty: "defaultCommitMessage \<noteq> []"
  by (simp add: defaultCommitMessage_def)

section \<open>Claims about generateCommitMessage\<close>

text \<open>
  C1, as stated, fails: the test for a missing client comes before the \<^verbatim>\<open>try\<close>, so
  without a credential \<^verbatim>\<open>generateCommitMessage\<close> throws to its caller, shows nothing and
  returns no message.
\<close>

theorem generateCommitMessage_throws_counterexample:
  "openai demoProvider = None \<and>
   generateCommitMessage demoProvider (ascii ''+x'') = ([], Inl OpenAINotInitialized)"
  by (simp add: generateCommitMessage_def demoProvider_def)

text \<open>
  C1, amended. When the completion client is configured, \<^verbatim>\<open>generateCommitMessage\<close>
  never throws; and every error of the completion call is caught, written to the console,
  shown to the user with the message of its category (credential, network, timeout or
  other, by the text of the error), and answered with the fixed default commit message.
\<close>

theorem generateCommitMessage_catches:
  "openai this = Some create \<Longrightarrow>
   (\<exists>evs m. generateCommitMessage this diffContent = (evs, Inr m)) \<and>
   (\<forall>error. create diffContent = Inl error \<longrightarrow>
      generateCommitMessage this diffContent =
        ([ConsoleError, ShowErrorMessage (failureMessage error)], Inr defaultCommitMessage) \<and>
      messageCategory (failureMessage error) = Some (errorCategory error))"
  by (auto simp: generateCommitMessage_def Let_def failureMessage_def errorCategory_def
        split: sum.splits thrown.splits)

theorem generateCommitMessage_catches_witness:
  "openai (failingProvider (ErrorInstance None (ascii ''Incorrect API key provided''))) =
     Some (\<lambda>diffContent. Inl (ErrorInstance None (ascii ''Incorrect API key provided''))) \<and>
   generateCommitMessage
     (failingProvider (ErrorInstance None (ascii ''Incorrect API key provided''))) (ascii ''+x'') =
     ([ConsoleError, ShowErrorMessage ApiKeyInvalid], Inr defaultCommitMessage) \<and>
   errorCategory (ErrorInstance None (ascii ''Incorrect API key provided'')) = Credential"
  using generateCommitMessage_catches
    [where this = "failingProvider (ErrorInstance None (ascii ''Incorrect API key provided''))"
       and create = "\<lambda>diffContent. Inl (ErrorInstance None (ascii ''Incorrect API key provided''))"
       and diffContent = "ascii ''+x''"]
  by (simp add: failingProvider_def failureMessage_def ascii_def)

text \<open>
  C6. \<^verbatim>\<open>generateCommitMessage\<close> never returns an empty string: whatever it returns is
  not empty. When the first completion's text is absent (no choice, no message, no content)
  or empty after trimming, the result is the fixed default message, which is the sparkles
  emoji, a space and a header of type \<^verbatim>\<open>feat\<close> with a generic description.
\<close>

theorem generateCommitMessage_nonempty:
  "(generateCommitMessage this diffContent = (evs, Inr m) \<longrightarrow> m \<noteq> []) \<and>
   (openai this = Some create \<and> create diffContent = Inr choices \<and>
    (firstContent choices = None \<or> firstContent choices = Some []) \<longrightarrow>
      generateCommitMessage this diffContent = ([], Inr defaultCommitMessage)) \<and>
   defaultCommitMessage = [0x2728] @ ascii '' '' @ ascii ''feat: implement requested changes'' \<and>
   typeMatch (ascii ''feat: implement requested changes'') = Some (ascii ''feat'')"
proof (intro conjI impI)
  assume "generateCommitMessage this diffContent = (evs, Inr m)"
  then show "m \<noteq> []"
    by (auto simp: generateCommitMessage_def Let_def addEmoji_nonempty
          defaultCommitMessage_nonempty split: option.splits sum.splits if_splits)
next
  assume "openai this = Some create \<and> create diffContent = Inr choices \<and>
    (firstContent choices = None \<or> firstContent choices = Some [])"
  then show "generateCommitMessage this diffContent = ([], Inr defaultCommitMessage)"
    by (auto simp: generateCommitMessage_def Let_def addEmoji_unchanged startsWithEmoji_default)
next
  show "defaultCommitMessage = [0x2728] @ ascii '' '' @ ascii ''feat: implement requested changes''"
    by (simp add: defaultCommitMessage_def ascii_def)
next
  show "typeMatch (ascii ''feat: implement requested changes'') = Some (ascii ''feat'')"
    by (simp add: typeMatch_eq ascii_def isWordChar_def afterType_def)
qed

theorem generateCommitMessage_nonempty_witness:
  "firstContent [Choice (Some (ChatMessage (Some (ascii ''  ''))))] = Some [] \<and>
   generateCommitMessage (replyingProvider (ascii ''  '')) (ascii ''+x'') =
     ([], Inr defaultCommitMessage) \<and>
   defaultCommitMessage \<noteq> []"
  using generateCommitMessage_nonempty
    [where this = "replyingProvider (ascii ''  '')" and diffContent = "ascii ''+x''"
       and evs = "[]" and m = defaultCommitMessage
       and create = "\<lambda>diffContent. Inr [Choice (Some (ChatMessage (Some (ascii ''  ''))))]"
       and choices = "[Choice (Some (ChatMessage (Some (ascii ''  ''))))]"]
  by (simp add: replyingProvider_def firstContent_def trim_def ascii_def
        isWhiteSpaceOrLineTerminator_def)

text \<open>
  C10. A commit message whose first character is an ASCII digit, the number sign or the
  asterisk passes the emoji test, because these characters have the property Emoji; so
  \<^verbatim>\<open>addEmojiToCommitMessage\<close> returns it unchanged whatever the type, and a completion
  whose trimmed text begins so is returned by \<^verbatim>\<open>generateCommitMessage\<close> as it is.
\<close>

theorem addEmoji_digit_hash_star:
  "(0x30 \<le> c \<and> c \<le> 0x39) \<or> c = 0x23 \<or> c = 0x2A \<Longrightarrow>
   startsWithEmoji (c # rest) \<and>
   addEmojiToCommitMessage (c # rest) ty = c # rest \<and>
   (openai this = Some create \<and> create diffContent = Inr choices \<and>
    firstContent choices = Some (c # rest) \<longrightarrow>
      generateCommitMessage this diffContent = ([], Inr (c # rest)))"
  by (simp add: startsWithEmoji_digit_hash_star addEmoji_unchanged generateCommitMessage_def)

theorem addEmoji_digit_hash_star_witness:
  "((0x30 :: 16 word) \<le> 0x31 \<and> (0x31 :: 16 word) \<le> 0x39) \<and>
   addEmojiToCommitMessage (ascii ''123: bump version'') (ascii ''fix'') =
     ascii ''123: bump version'' \<and>
   generateCommitMessage (replyingProvider (ascii ''123: bump version'')) (ascii ''+x'') =
     ([], Inr (ascii ''123: bump version''))"
  using addEmoji_digit_hash_star
    [where c = "0x31" and rest = "ascii ''23: bump version''" and ty = "ascii ''fix''"
       and this = "replyingProvider (ascii ''123: bump version'')"
       and create = "\<lambda>diffContent. Inr [Choice (Some (ChatMessage (Some (ascii ''123: bump version''))))]"
       and diffContent = "ascii ''+x''"
       and choices = "[Choice (Some (ChatMessage (Some (ascii ''123: bump version''))))]"]
  by (simp add: replyingProvider_def firstContent_def trim_def ascii_def
        isWhiteSpaceOrLineTerminator_def)

section \<open>getFileDiff and the per-file callback\<close>

lemma getFileDiff_None_iff: "snd (getFileDiff ws repo uri) = None \<longleftrightarrow> fileFails ws repo uri"
  by (auto simp: getFileDiff_def diffAgainstHEAD_def fileFails_def split: sum.splits)

lemma getFileDiff_failure_logged:
  "snd (getFileDiff ws repo uri) = None \<Longrightarrow> list_ex isConsoleLine (fst (getFileDiff ws repo uri))"
  by (auto simp: getFileDiff_def diffAgainstHEAD_def split: sum.splits if_splits)

lemma diffPromise_resolved:
  assumes "Uri_file ws p = Inr uri" and "asRelativePath ws p = Inr rel"
  shows "fst (diffPromise ws repo p) = fst (getFileDiff ws repo uri)"
    and "snd (diffPromise ws repo p) =
           (case snd (getFileDiff ws repo uri) of
              None \<Rightarrow> None
            | Some diff \<Rightarrow> if diff \<noteq> [] then Some (rel, diff) else None)"
  using assms by (auto simp: diffPromise_def split: prod.splits option.splits)

lemma diffPromise_warns_iff:
  "list_ex isUserNotification (fst (diffPromise ws repo p)) \<longleftrightarrow>
     isl (Uri_file ws p) \<or> isl (asRelativePath ws p)"
proof (cases "Uri_file ws p")
  case (Inl error)
  then show ?thesis by (simp add: diffPromise_def)
next
  case uri: (Inr uri)
  show ?thesis
  proof (cases "asRelativePath ws p")
    case (Inl error)
    then show ?thesis using uri by (simp add: diffPromise_def)
  next
    case (Inr rel)
    then show ?thesis
      using uri diffPromise_resolved(1) [OF uri Inr, of repo] getFileDiff_quiet [of ws repo uri]
      by simp
  qed
qed

lemma producedDiffs_append:
  "producedDiffs ws repo (xs @ ys) = producedDiffs ws repo xs @ producedDiffs ws repo ys"
  by (simp add: producedDiffs_def List.map_filter_def)

lemma producedDiffs_Cons_None:
  "snd (diffPromise ws repo p) = None \<Longrightarrow> producedDiffs ws repo (p # ys) = producedDiffs ws repo ys"
  by (simp add: producedDiffs_def)

lemma producedDiffs_all:
  "\<forall>p \<in> set filePaths. snd (diffPromise ws repo p) \<noteq> None \<Longrightarrow>
   producedDiffs ws repo filePaths = map (\<lambda>p. the (snd (diffPromise ws repo p))) filePaths"
  by (simp add: producedDiffs_def List.map_filter_def filter_id_conv)

section \<open>The concrete workspace, evaluated\<close>

lemma demo_diffPromise_a:
  "diffPromise demoWorkspace demoRepository (ascii ''/w/a.ts'') =
     ([FsStat (ascii ''/w/a.ts''), RepoShow (ascii ''/w/a.ts''), RepoDiffWithHEAD (ascii ''/w/a.ts'')],
      Some (ascii ''a.ts'', ascii ''+x''))"
  by (simp add: diffPromise_def getFileDiff_def diffAgainstHEAD_def demoWorkspace_def
        demoRepository_def ascii_def)

lemma demo_diffPromise_b:
  "diffPromise demoWorkspace demoRepository (ascii ''/w/b.ts'') =
     ([FsStat (ascii ''/w/b.ts''), RepoShow (ascii ''/w/b.ts''), RepoDiffWithHEAD (ascii ''/w/b.ts''),
       ConsoleError], None)"
  by (simp add: diffPromise_def getFileDiff_def diffAgainstHEAD_def demoWorkspace_def
        demoRepository_def ascii_def)

lemma demo_diffPromise_new:
  "diffPromise demoWorkspace demoRepository (ascii ''/w/new.ts'') =
     ([FsStat (ascii ''/w/new.ts''), RepoShow (ascii ''/w/new.ts''), FsReadFile (ascii ''/w/new.ts'')],
      Some (ascii ''new.ts'', ascii ''+++ New file\<newline>let x\<newline>''))"
  by (simp add: diffPromise_def getFileDiff_def isNotTracked_def newFileMarker_def
        demoWorkspace_def demoRepository_def ascii_def)

lemma demo_fileFails_b: "fileFails demoWorkspace demoRepository (ascii ''/w/b.ts'')"
  by (simp add: fileFails_def demoWorkspace_def demoRepository_def ascii_def)

text \<open>
  Taking turns keeps the effects of every callback: the merged trace has the same events
  as the traces together.
\<close>

lemma set_heads_tails:
  "set (concat (map (\<lambda>ys. case ys of [] \<Rightarrow> [] | h # t \<Rightarrow> [h]) xss)) \<union>
   \<Union> (set ` set (concat (map (\<lambda>ys. case ys of [] \<Rightarrow> [] | h # t \<Rightarrow> [t]) xss))) =
   \<Union> (set ` set xss)"
proof (induction xss)
  case Nil
  then show ?case by simp
next
  case (Cons ys xss)
  define H where "H = set (concat (map (\<lambda>ys. case ys of [] \<Rightarrow> [] | h # t \<Rightarrow> [h]) xss))"
  define T where
    "T = \<Union> (set ` set (concat (map (\<lambda>ys. case ys of [] \<Rightarrow> [] | h # t \<Rightarrow> [t]) xss)))"
  have IH: "H \<union> T = \<Union> (set ` set xss)"
    using Cons.IH by (simp only: H_def T_def)
  show ?case
  proof (cases ys)
    case Nil
    then show ?thesis using Cons.IH by simp
  next
    case (Cons a list)
    have "set (concat (map (\<lambda>ys. case ys of [] \<Rightarrow> [] | h # t \<Rightarrow> [h]) (ys # xss))) = insert a H"
      using Cons by (simp add: H_def)
    moreover have
      "\<Union> (set ` set (concat (map (\<lambda>ys. case ys of [] \<Rightarrow> [] | h # t \<Rightarrow> [t]) (ys # xss)))) =
         set list \<union> T"
      using Cons by (simp add: T_def)
    moreover have "\<Union> (set ` set (ys # xss)) = insert a (set list) \<union> (H \<union> T)"
      using Cons IH by simp
    ultimately show ?thesis by (simp only:) blast
  qed
qed

lemma set_concat_transpose: "set (concat (transpose xss)) = set (concat xss)"
proof (induction xss rule: transpose.induct)
  case 1
  then show ?case by simp
next
  case (2 xss)
  then show ?case by simp
next
  case (3 x xs xss)
  have "set (concat (transpose ((x # xs) # xss))) =
          insert x (set [h. (h # t) \<leftarrow> xss]) \<union>
          set (concat (transpose (xs # [t. (h # t) \<leftarrow> xss])))"
    by simp
  also have "\<dots> = insert x (set [h. (h # t) \<leftarrow> xss]) \<union>
          (set xs \<union> \<Union> (set ` set [t. (h # t) \<leftarrow> xss]))"
    using "3.IH" by simp
  also have "\<dots> = insert x (set xs) \<union> \<Union> (set ` set xss)"
    using set_heads_tails [of xss] by (simp del: set_concat) blast
  finally show ?case by simp
qed

lemma demo_interleaving_faithful:
  "set (interleaving demoWorkspace traces) = set (concat traces)"
  by (simp add: demoWorkspace_def set_concat_transpose del: set_concat)

section \<open>Claims about the diffs\<close>

text \<open>
  C3. When \<^verbatim>\<open>stat\<close> succeeds, \<^verbatim>\<open>repo.show\<close> fails with an error the code takes for
  "not tracked" and the file can be read, \<^verbatim>\<open>getFileDiff\<close> reads the file and returns the
  marker \<^verbatim>\<open>"+++ New file\n"\<close> followed by the content of the file as the text decoder
  reads it, with nothing added or removed.
\<close>

theorem getFileDiff_new_file:
  "fs_stat ws uri = Inr u \<Longrightarrow> repo_show repo uri = Inl error \<Longrightarrow> isNotTracked error \<Longrightarrow>
   fs_readFile ws uri = Inr content \<Longrightarrow>
   getFileDiff ws repo uri =
     ([FsStat uri, RepoShow uri, FsReadFile uri],
      Some (ascii ''+++ New file\<newline>'' @ TextDecoder_decode ws content))"
  by (simp add: getFileDiff_def newFileMarker_def)

theorem getFileDiff_new_file_witness:
  "fs_stat demoWorkspace (ascii ''/w/new.ts'') = Inr () \<and>
   repo_show demoRepository (ascii ''/w/new.ts'') =
     Inl (ErrorInstance (Some (ascii ''UnknownPath'')) (ascii ''unknown path'')) \<and>
   isNotTracked (ErrorInstance (Some (ascii ''UnknownPath'')) (ascii ''unknown path'')) \<and>
   fs_readFile demoWorkspace (ascii ''/w/new.ts'') = Inr [0x6C, 0x65, 0x74, 0x20, 0x78, 0x0A] \<and>
   getFileDiff demoWorkspace demoRepository (ascii ''/w/new.ts'') =
     ([FsStat (ascii ''/w/new.ts''), RepoShow (ascii ''/w/new.ts''), FsReadFile (ascii ''/w/new.ts'')],
      Some (ascii ''+++ New file\<newline>let x\<newline>''))"
proof -
  have st: "fs_stat demoWorkspace (ascii ''/w/new.ts'') = Inr ()"
    by (simp add: demoWorkspace_def ascii_def)
  have sh: "repo_show demoRepository (ascii ''/w/new.ts'') =
     Inl (ErrorInstance (Some (ascii ''UnknownPath'')) (ascii ''unknown path''))"
    by (simp add: demoRepository_def)
  have nt: "isNotTracked (ErrorInstance (Some (ascii ''UnknownPath'')) (ascii ''unknown path''))"
    by (simp add: isNotTracked_def)
  have rd: "fs_readFile demoWorkspace (ascii ''/w/new.ts'') = Inr [0x6C, 0x65, 0x74, 0x20, 0x78, 0x0A]"
    by (simp add: demoWorkspace_def)
  have dec: "ascii ''+++ New file\<newline>'' @ TextDecoder_decode demoWorkspace [0x6C, 0x65, 0x74, 0x20, 0x78, 0x0A] =
      ascii ''+++ New file\<newline>let x\<newline>''"
    by (simp add: demoWorkspace_def ascii_def)
  show ?thesis
    using getFileDiff_new_file [OF st sh nt rd] st sh nt rd dec by simp
qed

text \<open>
  C2, as stated, fails: each section the loop writes begins with a line feed, which the
  section of the claim does not have.
\<close>

theorem getChangesDiff_section_format_counterexample:
  "snd (getChangesDiff demoProvider demoWorkspace [ascii ''/w/a.ts'']) =
     Inr (ascii ''\<newline>--- a.ts ---\<newline>+x\<newline>'') \<and>
   snd (getChangesDiff demoProvider demoWorkspace [ascii ''/w/a.ts'']) \<noteq>
     Inr (concat (map specSection [(ascii ''a.ts'', ascii ''+x'')]))"
  by (simp add: getChangesDiff_def demoProvider_def demo_diffPromise_a specSection_def)
    (simp add: ascii_def)

text \<open>
  C2, amended. When the extension has a repository, the composite returned by
  \<^verbatim>\<open>getChangesDiff\<close> is the concatenation, in input order, of the section
  \<^verbatim>\<open>"\n--- <relative-path> ---\n<diffText>\n"\<close> of each file that produced a diff; the
  other files leave no trace; and when every one of the N files produced a diff, there are
  exactly N sections, one per input path in input order.
\<close>

theorem getChangesDiff_sections:
  "gitExtension this = Some (repo # others) \<Longrightarrow>
   snd (getChangesDiff this ws filePaths) =
     Inr (concat (map fileSection (producedDiffs ws repo filePaths))) \<and>
   producedDiffs ws repo filePaths =
     map (\<lambda>p. the (snd (diffPromise ws repo p)))
       (filter (\<lambda>p. snd (diffPromise ws repo p) \<noteq> None) filePaths) \<and>
   ((\<forall>p \<in> set filePaths. snd (diffPromise ws repo p) \<noteq> None) \<longrightarrow>
      producedDiffs ws repo filePaths = map (\<lambda>p. the (snd (diffPromise ws repo p))) filePaths \<and>
      length (producedDiffs ws repo filePaths) = length filePaths)"
  by (simp add: getChangesDiff_composite producedDiffs_all)
    (simp add: producedDiffs_def List.map_filter_def comp_def)

theorem getChangesDiff_sections_witness:
  "gitExtension demoProvider = Some (demoRepository # []) \<and>
   snd (diffPromise demoWorkspace demoRepository (ascii ''/w/a.ts'')) \<noteq> None \<and>
   snd (diffPromise demoWorkspace demoRepository (ascii ''/w/new.ts'')) \<noteq> None \<and>
   length (producedDiffs demoWorkspace demoRepository [ascii ''/w/a.ts'', ascii ''/w/new.ts'']) = 2 \<and>
   snd (getChangesDiff demoProvider demoWorkspace [ascii ''/w/a.ts'', ascii ''/w/new.ts'']) =
     Inr (fileSection (ascii ''a.ts'', ascii ''+x'') @
          fileSection (ascii ''new.ts'', ascii ''+++ New file\<newline>let x\<newline>''))"
  using getChangesDiff_sections
    [of demoProvider demoRepository "[]" demoWorkspace "[ascii ''/w/a.ts'', ascii ''/w/new.ts'']"]
  by (simp add: demoProvider_def demo_diffPromise_a demo_diffPromise_new)

text \<open>
  What holds when a file fails inside \<^verbatim>\<open>getFileDiff\<close>: the call throws nothing and
  returns the composite of the sections of the other files, and the failure is written to
  the console. The warning of the callback's \<^verbatim>\<open>catch\<close> block is shown for a path exactly
  when \<^verbatim>\<open>Uri.file\<close> or \<^verbatim>\<open>asRelativePath\<close> throws for it, whatever the order in which
  the host merges the effects of the callbacks.
\<close>

lemma getChangesDiff_failed_file_omitted:
  assumes "gitExtension this = Some (repo # others)"
    and "Uri_file ws p = Inr uri" and "asRelativePath ws p = Inr rel"
    and "fileFails ws repo uri"
  shows "snd (getChangesDiff this ws (xs @ p # ys)) =
           Inr (concat (map fileSection (producedDiffs ws repo (xs @ ys)))) \<and>
         fst (diffPromise ws repo p) = fst (getFileDiff ws repo uri) \<and>
         list_ex isConsoleLine (fst (getFileDiff ws repo uri)) \<and>
         \<not> list_ex isUserNotification (fst (getFileDiff ws repo uri))"
proof -
  have none: "snd (getFileDiff ws repo uri) = None"
    using assms(4) by (simp add: getFileDiff_None_iff)
  then have "snd (diffPromise ws repo p) = None"
    using assms(2,3) by (simp add: diffPromise_resolved)
  then have "producedDiffs ws repo (xs @ p # ys) = producedDiffs ws repo (xs @ ys)"
    by (simp add: producedDiffs_append producedDiffs_Cons_None)
  then have a: "snd (getChangesDiff this ws (xs @ p # ys)) =
           Inr (concat (map fileSection (producedDiffs ws repo (xs @ ys))))"
    using assms(1) by (simp add: getChangesDiff_composite)
  have b: "fst (diffPromise ws repo p) = fst (getFileDiff ws repo uri)"
    using assms(2,3) by (rule diffPromise_resolved(1))
  show ?thesis
    using a b none getFileDiff_failure_logged [of ws repo uri] getFileDiff_quiet [of ws repo uri]
    by simp
qed

lemma getChangesDiff_warns_iff:
  assumes "gitExtension this = Some (repo # others)" and "filePaths \<noteq> []"
    and "set (interleaving ws (map (\<lambda>p. fst (diffPromise ws repo p)) filePaths)) =
         set (concat (map (\<lambda>p. fst (diffPromise ws repo p)) filePaths))"
  shows "list_ex isUserNotification (fst (getChangesDiff this ws filePaths)) \<longleftrightarrow>
           (\<exists>p \<in> set filePaths. isl (Uri_file ws p) \<or> isl (asRelativePath ws p))"
proof -
  have "list_ex isUserNotification (fst (getChangesDiff this ws filePaths)) \<longleftrightarrow>
          (\<exists>p \<in> set filePaths. list_ex isUserNotification (fst (diffPromise ws repo p)))"
    using assms by (auto simp: getChangesDiff_events list_ex_iff)
  then show ?thesis
    by (simp add: diffPromise_warns_iff)
qed

text \<open>
  C4 says that, when one file among the input paths fails with a read error or an adapter
  error, the user is warned. The callback has a \<^verbatim>\<open>catch\<close> block that shows the warning,
  but \<^verbatim>\<open>getFileDiff\<close> catches every error itself, writes a line to the console and
  returns \<^verbatim>\<open>undefined\<close>, so that block is not reached. With two files of which the
  second fails in \<^verbatim>\<open>diffWithHEAD\<close>, the call returns the section of the first and writes
  to the console, and the user is shown nothing.
\<close>

theorem getChangesDiff_failed_file_not_warned:
  "repo_diffWithHEAD demoRepository (ascii ''/w/b.ts'') =
     Inl (ErrorInstance None (ascii ''git failed'')) \<and>
   fileFails demoWorkspace demoRepository (ascii ''/w/b.ts'') \<and>
   snd (getChangesDiff demoProvider demoWorkspace [ascii ''/w/a.ts'', ascii ''/w/b.ts'']) =
     Inr (fileSection (ascii ''a.ts'', ascii ''+x'')) \<and>
   list_ex isConsoleLine
     (fst (getChangesDiff demoProvider demoWorkspace [ascii ''/w/a.ts'', ascii ''/w/b.ts''])) \<and>
   \<not> list_ex isUserNotification
       (fst (getChangesDiff demoProvider demoWorkspace [ascii ''/w/a.ts'', ascii ''/w/b.ts'']))"
  by (simp add: getChangesDiff_def demoProvider_def demo_diffPromise_a demo_diffPromise_b
        demo_fileFails_b fileSection_def)
    (simp add: demoRepository_def demoWorkspace_def)

section \<open>The emoji table\<close>

text \<open>
  For a type that is a key of the table, and for a type that is no property of the object
  at all, the code does what the table says: the emoji of the type, or the sparkles, is put
  before the message, and a second application changes nothing.
\<close>

lemma emojiMap_starts_with_emoji:
  "map_of emojiMap ty = Some e \<Longrightarrow> startsWithEmoji (e @ ascii '' '' @ m)"
  by (auto simp: emojiMap_def startsWithEmoji_def ascii_def isLeadSurrogate_def
        isTrailSurrogate_def Emoji_def emojiRanges_def split: if_splits)

lemma emojiMap_nonempty: "map_of emojiMap ty = Some e \<Longrightarrow> e \<noteq> []"
  by (auto simp: emojiMap_def split: if_splits)

lemma addEmoji_table:
  "\<not> startsWithEmoji m \<Longrightarrow> map_of emojiMap ty = Some e \<Longrightarrow>
   addEmojiToCommitMessage m ty = e @ ascii '' '' @ m"
  by (simp add: addEmojiToCommitMessage_def emojiMapGet_def emojiMap_nonempty)

lemma addEmoji_no_property:
  "\<not> startsWithEmoji m \<Longrightarrow> emojiMapGet ty = None \<Longrightarrow>
   addEmojiToCommitMessage m ty = [0x2728] @ ascii '' '' @ m"
  by (simp add: addEmojiToCommitMessage_def)

lemma addEmoji_twice_table:
  assumes "map_of emojiMap ty = Some e \<or> emojiMapGet ty = None"
  shows "addEmojiToCommitMessage (addEmojiToCommitMessage m ty) ty' = addEmojiToCommitMessage m ty"
proof (cases "startsWithEmoji m")
  case True
  then show ?thesis by (simp add: addEmoji_unchanged)
next
  case False
  from assms have "startsWithEmoji (addEmojiToCommitMessage m ty)"
  proof
    assume "map_of emojiMap ty = Some e"
    then show ?thesis
      using False by (simp add: addEmoji_table emojiMap_starts_with_emoji)
  next
    assume "emojiMapGet ty = None"
    then have "addEmojiToCommitMessage m ty = [0x2728] @ ascii '' '' @ m"
      using False by (rule addEmoji_no_property [rotated])
    then show ?thesis
      by (simp add: startsWithEmoji_def ascii_def isLeadSurrogate_def Emoji_def emojiRanges_def)
  qed
  then show ?thesis by (rule addEmoji_unchanged)
qed

lemma generateCommitMessage_fix_parser:
  "generateCommitMessage (replyingProvider (ascii ''fix(parser): correct off-by-one'')) (ascii ''+x'') =
     ([], Inr ([0xD83D, 0xDC1B] @ ascii '' fix(parser): correct off-by-one''))"
  by (simp add: generateCommitMessage_def replyingProvider_def firstContent_def trim_def
        isWhiteSpaceOrLineTerminator_def typeMatch_eq isWordChar_def afterType_def
        isLineTerminator_def addEmojiToCommitMessage_def startsWithEmoji_def isLeadSurrogate_def
        Emoji_def emojiRanges_def emojiMapGet_def emojiMap_def ascii_def)

section \<open>Claims about the emoji\<close>

text \<open>
  C5 says that any type token not in the table maps to the sparkles. The code looks the
  type up with \<^verbatim>\<open>emojiMap[type] || ...\<close> on an object literal, so a type that names a
  member of \<^verbatim>\<open>Object.prototype\<close> finds that member, which is truthy. For the completion
  \<^verbatim>\<open>constructor: add default\<close> the header pattern gives the type \<^verbatim>\<open>constructor\<close>, which
  is not in the table, and the message returned begins with the text of the function
  \<^verbatim>\<open>Object\<close> instead of the sparkles.
\<close>

theorem generateCommitMessage_constructor:
  "typeMatch (ascii ''constructor: add default'') = Some (ascii ''constructor'') \<and>
   map_of emojiMap (ascii ''constructor'') = None \<and>
   \<not> startsWithEmoji (ascii ''constructor: add default'') \<and>
   generateCommitMessage (replyingProvider (ascii ''constructor: add default'')) (ascii ''+x'') =
     ([], Inr (ascii ''function Object() { [native code] } constructor: add default'')) \<and>
   ascii ''function Object() { [native code] } constructor: add default'' \<noteq>
     [0x2728] @ ascii '' constructor: add default''"
  by (simp add: generateCommitMessage_def replyingProvider_def firstContent_def trim_def
        isWhiteSpaceOrLineTerminator_def typeMatch_eq isWordChar_def afterType_def
        isLineTerminator_def addEmojiToCommitMessage_def startsWithEmoji_def isLeadSurrogate_def
        Emoji_def emojiRanges_def emojiMapGet_def emojiMap_def objectPrototypeGet_def ascii_def)

text \<open>
  C9 says that applying the emoji step twice equals applying it once. With the type
  \<^verbatim>\<open>constructor\<close> the first application puts the text of the function \<^verbatim>\<open>Object\<close>
  before the message; the result begins with the letter f, which is no emoji, so the second
  application puts the same text before it again; and with the type read again from the
  result, which has no header any more, it puts the sparkles before it.
\<close>

theorem addEmoji_twice_constructor:
  "addEmojiToCommitMessage (ascii ''constructor: x'') (ascii ''constructor'') =
     ascii ''function Object() { [native code] } constructor: x'' \<and>
   addEmojiToCommitMessage
     (addEmojiToCommitMessage (ascii ''constructor: x'') (ascii ''constructor''))
     (ascii ''constructor'') =
     ascii ''function Object() { [native code] } function Object() { [native code] } constructor: x'' \<and>
   addEmojiToCommitMessage
     (addEmojiToCommitMessage (ascii ''constructor: x'') (ascii ''constructor''))
     (ascii ''constructor'') \<noteq>
     addEmojiToCommitMessage (ascii ''constructor: x'') (ascii ''constructor'') \<and>
   typeMatch (ascii ''function Object() { [native code] } constructor: x'') = None \<and>
   addEmojiToCommitMessage (ascii ''function Object() { [native code] } constructor: x'')
     (ascii ''feat'') =
     [0x2728] @ ascii '' function Object() { [native code] } constructor: x''"
  by (simp add: addEmojiToCommitMessage_def startsWithEmoji_def isLeadSurrogate_def
        Emoji_def emojiRanges_def emojiMapGet_def emojiMap_def objectPrototypeGet_def
        typeMatch_eq isWordChar_def afterType_def ascii_def)

end
